theory Spec2Isabelle
  imports Main "HOL-Library.Word"
begin

section \<open>JavaScript strings\<close>

text \<open>
  A JavaScript string is a sequence of 16-bit UTF-16 code units; \<open>length\<close>, \<open>startsWith\<close>,
  \<open>replace\<close>, \<open>trim\<close> and \<open>parseInt\<close> all work on code units. String literals of the
  source are written \<open>js ''...''\<close>: every character of such a literal is ASCII and stands
  for the code unit of the same number.
\<close>

type_synonym code_unit = "16 word"

type_synonym jsstring = "code_unit list"

definition js :: "string \<Rightarrow> jsstring" where
  "js s = map of_char s"

text \<open>\<open>s.startsWith(p)\<close>.\<close>

fun startsWith :: "jsstring \<Rightarrow> jsstring \<Rightarrow> bool" where
  "startsWith s [] = True"
| "startsWith [] (p # ps) = False"
| "startsWith (c # cs) (p # ps) = (c = p \<and> startsWith cs ps)"

text \<open>\<open>s.indexOf(p)\<close>: the position of the first occurrence, \<open>None\<close> for JavaScript's -1.\<close>

fun indexOf :: "jsstring \<Rightarrow> jsstring \<Rightarrow> nat option" where
  "indexOf [] p = (if p = [] then Some 0 else None)"
| "indexOf (c # cs) p =
     (if startsWith (c # cs) p then Some 0 else map_option Suc (indexOf cs p))"

text \<open>
  The abstract operation GetSubstitution of ECMAScript, as \<open>String.prototype.replace\<close> calls
  it for a string pattern: there are no captures and no named groups, so of the \<open>$\<close>
  patterns of the replacement text only \<open>$$\<close> (a dollar sign), \<open>$&\<close> (the matched text),
  \<open>$`\<close> (the text before the match) and \<open>$'\<close> (the text after the match) are replaced;
  \<open>$\<close> followed by digits, by \<open><\<close> or by anything else stays as it is.
  The code units are \<open>$\<close> = 0x24, \<open>&\<close> = 0x26, \<open>'\<close> = 0x27 and \<open>`\<close> = 0x60.
\<close>

fun getSubstitution :: "jsstring \<Rightarrow> jsstring \<Rightarrow> nat \<Rightarrow> jsstring \<Rightarrow> jsstring" where
  "getSubstitution matched str position [] = []"
| "getSubstitution matched str position [c] = [c]"
| "getSubstitution matched str position (c # d # rest) =
     (if c = 0x24 \<and> d = 0x24 then 0x24 # getSubstitution matched str position rest
      else if c = 0x24 \<and> d = 0x60 then
        take position str @ getSubstitution matched str position rest
      else if c = 0x24 \<and> d = 0x26 then
        matched @ getSubstitution matched str position rest
      else if c = 0x24 \<and> d = 0x27 then
        drop (position + length matched) str @ getSubstitution matched str position rest
      else c # getSubstitution matched str position (d # rest))"

text \<open>
  \<open>str.replace(searchString, replaceValue)\<close> with both arguments strings: only the first
  occurrence is replaced, and the replacement text goes through GetSubstitution.
\<close>

definition replace :: "jsstring \<Rightarrow> jsstring \<Rightarrow> jsstring \<Rightarrow> jsstring" where
  "replace str searchString replaceValue =
     (case indexOf str searchString of
        None \<Rightarrow> str
      | Some pos \<Rightarrow>
          take pos str
          @ getSubstitution searchString str pos replaceValue
          @ drop (pos + length searchString) str)"

section \<open>The environment\<close>

text \<open>
  What the settings tab reads from Node: \<open>os.homedir()\<close>, \<open>fs.existsSync\<close> and
  \<open>fs.statSync\<close>. The two file-system calls may throw; a thrown value is an \<open>Error\<close> with
  its message. Of the result of \<open>statSync\<close> only \<open>isDirectory()\<close> is read.
\<close>

datatype jserror = Error (message: jsstring)

record stats =
  isDirectory :: bool

record env =
  homedir :: jsstring
  existsSync :: "jsstring \<Rightarrow> jserror + bool"
  statSync :: "jsstring \<Rightarrow> jserror + stats"

section \<open>expandTilde\<close>

definition expandTilde :: "env \<Rightarrow> jsstring \<Rightarrow> jsstring" where
  "expandTilde e path =
     (if path = js ''~'' then homedir e
      else if startsWith path (js ''~/'') then replace path (js ''~'') (homedir e)
      else path)"

section \<open>White space, trim and parseInt\<close>

text \<open>
  The code units that \<open>trim\<close> strips and \<open>parseInt\<close> skips: ECMAScript's WhiteSpace
  (TAB, VT, FF, SP, NBSP, ZWNBSP and the space separators of Unicode) and LineTerminator
  (LF, CR, LS, PS).
\<close>

definition isWhiteSpace :: "code_unit \<Rightarrow> bool" where
  "isWhiteSpace c \<longleftrightarrow>
     c = 0x09 \<or> c = 0x0B \<or> c = 0x0C \<or> c = 0x20 \<or> c = 0xA0 \<or> c = 0xFEFF
     \<or> c = 0x1680 \<or> (0x2000 \<le> c \<and> c \<le> 0x200A) \<or> c = 0x202F \<or> c = 0x205F \<or> c = 0x3000
     \<or> c = 0x0A \<or> c = 0x0D \<or> c = 0x2028 \<or> c = 0x2029"

definition trimStart :: "jsstring \<Rightarrow> jsstring" where
  "trimStart s = dropWhile isWhiteSpace s"

definition trimEnd :: "jsstring \<Rightarrow> jsstring" where
  "trimEnd s = rev (dropWhile isWhiteSpace (rev s))"

definition trim :: "jsstring \<Rightarrow> jsstring" where
  "trim s = trimEnd (trimStart s)"

definition isDigit :: "code_unit \<Rightarrow> bool" where
  "isDigit c \<longleftrightarrow> 0x30 \<le> c \<and> c \<le> 0x39"

definition digitValue :: "code_unit \<Rightarrow> int" where
  "digitValue c = uint c - 0x30"

definition mathInt :: "jsstring \<Rightarrow> int" where
  "mathInt Z = foldl (\<lambda>n c. 10 * n + digitValue c) 0 Z"

text \<open>
  \<open>parseInt(string, 10)\<close>: leading white space is skipped, one sign \<open>+\<close> (0x2B) or \<open>-\<close>
  (0x2D) is read, then the longest run of decimal digits; what follows the digits is
  ignored. \<open>None\<close> is NaN (no digit was found). The radix is given as 10, so no \<open>0x\<close>
  prefix is recognised.

  The result is the mathematical integer. JavaScript rounds it to a double; the only use
  of the result is the test \<open>port > 0 && port < 65536\<close> and the assignment under that
  test. Rounding is monotone and every integer up to 65536 is a double, so the test gives
  the same answer on the integer as on the double, and a value that passes it is stored
  exactly. (\<open>-0\<close> is 0 for both comparisons.)
\<close>

definition parseInt :: "jsstring \<Rightarrow> int option" where
  "parseInt string =
     (let S = trimStart string;
          sign = (if startsWith S [0x2D] then - 1 else 1);
          S = (if startsWith S [0x2B] \<or> startsWith S [0x2D] then tl S else S);
          Z = takeWhile isDigit S
      in if Z = [] then None else Some (sign * mathInt Z))"

section \<open>The plugin and its settings\<close>

record settings =
  port :: int
  hostname :: jsstring
  opencodePath :: jsstring
  projectDirectory :: jsstring
  autoStart :: bool

text \<open>
  The methods of the plugin (\<open>saveSettings\<close>, \<open>updateProjectDirectory\<close>, \<open>startServer\<close>,
  \<open>stopServer\<close>) live in the main module; the settings tab only calls them. The model
  records each call, and each \<open>Notice\<close> shown to the user, in the order they happen.
\<close>

datatype call =
    SaveSettings
  | UpdateProjectDirectory jsstring
  | Notice jsstring

record plugin =
  settings :: settings
  calls :: "call list"

definition do_call :: "call \<Rightarrow> plugin \<Rightarrow> plugin" where
  "do_call c p = p\<lparr>calls := calls p @ [c]\<rparr>"

text \<open>\<open>value || dflt\<close> on strings: the empty string is the only falsy string.\<close>

definition or_default :: "jsstring \<Rightarrow> jsstring \<Rightarrow> jsstring" where
  "or_default v dflt = (if v \<noteq> [] then v else dflt)"

subsection \<open>The change handlers of the text fields\<close>

definition port_onChange :: "jsstring \<Rightarrow> plugin \<Rightarrow> plugin" where
  "port_onChange v p =
     (case parseInt v of
        None \<Rightarrow> p
      | Some n \<Rightarrow>
          if n > 0 \<and> n < 65536
          then do_call SaveSettings (p\<lparr>settings := (settings p)\<lparr>port := n\<rparr>\<rparr>)
          else p)"

definition hostname_onChange :: "jsstring \<Rightarrow> plugin \<Rightarrow> plugin" where
  "hostname_onChange v p =
     do_call SaveSettings
       (p\<lparr>settings := (settings p)\<lparr>hostname := or_default v (js ''127.0.0.1'')\<rparr>\<rparr>)"

definition opencodePath_onChange :: "jsstring \<Rightarrow> plugin \<Rightarrow> plugin" where
  "opencodePath_onChange v p =
     do_call SaveSettings
       (p\<lparr>settings := (settings p)\<lparr>opencodePath := or_default v (js ''opencode'')\<rparr>\<rparr>)"

subsection \<open>validateAndSetProjectDirectory\<close>

definition isAsciiLetter :: "code_unit \<Rightarrow> bool" where
  "isAsciiLetter c \<longleftrightarrow> (0x41 \<le> c \<and> c \<le> 0x5A) \<or> (0x61 \<le> c \<and> c \<le> 0x7A)"

text \<open>
  \<open>trimmed.match(/^[A-Za-z]:\\/)\<close> is truthy exactly when the string starts with an ASCII
  letter, a colon (0x3A) and one backslash (0x5C).
\<close>

fun matchesDriveLetter :: "jsstring \<Rightarrow> bool" where
  "matchesDriveLetter (a # b # c # rest) = (isAsciiLetter a \<and> b = 0x3A \<and> c = 0x5C)"
| "matchesDriveLetter _ = False"

definition isAbsoluteForm :: "jsstring \<Rightarrow> bool" where
  "isAbsoluteForm trimmed \<longleftrightarrow>
     \<not> (\<not> startsWith trimmed (js ''/'') \<and> \<not> startsWith trimmed (js ''~'')
        \<and> \<not> matchesDriveLetter trimmed)"

text \<open>
  The \<open>try\<close> block: \<open>Inr expanded\<close> when the path exists and is a directory, otherwise
  \<open>Inl\<close> the text of the notice. An exception of either file-system call is caught and
  becomes a notice as well.
\<close>

definition checkDirectory :: "env \<Rightarrow> jsstring \<Rightarrow> jsstring + jsstring" where
  "checkDirectory e expanded =
     (case existsSync e expanded of
        Inl err \<Rightarrow> Inl (js ''Failed to validate path: '' @ message err)
      | Inr ex \<Rightarrow>
          if \<not> ex then Inl (js ''Project directory does not exist'')
          else (case statSync e expanded of
                  Inl err \<Rightarrow> Inl (js ''Failed to validate path: '' @ message err)
                | Inr stat \<Rightarrow>
                    if \<not> isDirectory stat
                    then Inl (js ''Project directory path is not a directory'')
                    else Inr expanded))"

definition validateAndSetProjectDirectory :: "env \<Rightarrow> jsstring \<Rightarrow> plugin \<Rightarrow> plugin" where
  "validateAndSetProjectDirectory e v p =
     (let trimmed = trim v in
      if trimmed = [] then do_call (UpdateProjectDirectory (js '''')) p
      else if \<not> isAbsoluteForm trimmed then
        do_call (Notice (js ''Project directory must be an absolute path (or start with ~)'')) p
      else
        let expanded = expandTilde e trimmed in
        case checkDirectory e expanded of
          Inl notice \<Rightarrow> do_call (Notice notice) p
        | Inr dir \<Rightarrow> do_call (UpdateProjectDirectory dir) p)"

section \<open>The debounce timer of the project-directory field\<close>

text \<open>
  The change handler of the project-directory field does not validate at once: it clears
  the timer it set before and sets a new one. The model has a logical clock in
  milliseconds and the list of the timers that are set and have not fired. Every timer of
  the tab has the same callback, \<open>validateAndSetProjectDirectory(value)\<close>, so a timer is
  its handle, the time it is due and the captured \<open>value\<close>. Handles are positive numbers,
  as in a browser window, and are never reused. Events are handled one at a time, in the
  order of their times: a timer fires once the clock has reached its due time, timers due
  at the same time fire in the order they were set, and a change event that happens
  before a timer is due is handled before that timer fires.
\<close>

record timer =
  handle :: nat
  due :: nat
  arg :: jsstring

record tab =
  plugin :: plugin
  validateTimeout :: "nat option"
  now :: nat
  nextHandle :: nat
  pending :: "timer list"

definition setTimeout :: "jsstring \<Rightarrow> nat \<Rightarrow> tab \<Rightarrow> nat \<times> tab" where
  "setTimeout v delay t =
     (nextHandle t,
      t\<lparr>nextHandle := Suc (nextHandle t),
        pending := pending t @ [\<lparr>handle = nextHandle t, due = now t + delay, arg = v\<rparr>]\<rparr>)"

definition clearTimeout :: "nat \<Rightarrow> tab \<Rightarrow> tab" where
  "clearTimeout h t = t\<lparr>pending := filter (\<lambda>tm. handle tm \<noteq> h) (pending t)\<rparr>"

text \<open>
  \<open>if (this.validateTimeout)\<close> is false for \<open>null\<close> and for the number 0. The field is not
  reset when its timer fires, so it may hold the handle of a timer that is gone;
  clearing such a handle does nothing.
\<close>

definition projectDirectory_onChange :: "jsstring \<Rightarrow> tab \<Rightarrow> tab" where
  "projectDirectory_onChange v t =
     (let t1 = (case validateTimeout t of
                  None \<Rightarrow> t
                | Some h \<Rightarrow> if h \<noteq> 0 then clearTimeout h t else t);
          (h, t2) = setTimeout v 500 t1
      in t2\<lparr>validateTimeout := Some h\<rparr>)"

text \<open>A timer fires: its callback runs the validation on the value it captured.\<close>

definition fire :: "env \<Rightarrow> tab \<Rightarrow> timer \<Rightarrow> tab" where
  "fire e t tm = t\<lparr>plugin := validateAndSetProjectDirectory e (arg tm) (plugin t)\<rparr>"

text \<open>\<open>d\<close> milliseconds pass with no change event: the timers that become due fire.\<close>

definition advance :: "env \<Rightarrow> nat \<Rightarrow> tab \<Rightarrow> tab" where
  "advance e d t =
     (let t1 = t\<lparr>now := now t + d\<rparr>;
          ready = sort_key due (filter (\<lambda>tm. due tm \<le> now t1) (pending t1));
          t2 = t1\<lparr>pending := filter (\<lambda>tm. \<not> due tm \<le> now t1) (pending t1)\<rparr>
      in foldl (fire e) t2 ready)"

text \<open>
  A run of edits: each edit is the time that has passed since the event before it, and
  the new value of the field.
\<close>

fun edits :: "env \<Rightarrow> (nat \<times> jsstring) list \<Rightarrow> tab \<Rightarrow> tab" where
  "edits e [] t = t"
| "edits e ((gap, v) # rest) t =
     edits e rest (projectDirectory_onChange v (advance e gap t))"

text \<open>
  One timer is pending and the field \<open>validateTimeout\<close> names it: it holds the value
  \<open>v\<close> and is due at the time \<open>d\<close>.
\<close>

definition armed :: "tab \<Rightarrow> jsstring \<Rightarrow> nat \<Rightarrow> bool" where
  "armed t v d \<longleftrightarrow>
     nextHandle t \<noteq> 0
     \<and> (case validateTimeout t of
          None \<Rightarrow> False
        | Some h \<Rightarrow> h \<noteq> 0 \<and> pending t = [\<lparr>handle = h, due = d, arg = v\<rparr>])"

section \<open>The server status panel\<close>

text \<open>
  \<open>renderServerStatus\<close> reads the process state and the server URL from the plugin and
  fills the container. The click listener of a button is the list of the calls it
  makes, in order. The anchor shows the server URL; its listener opens that URL in a
  new window and calls nothing of the plugin.
\<close>

datatype ProcessState = stopped | starting | running | error

datatype action = StartServer | StopServer | RenderServerStatus

datatype element =
    Span jsstring "jsstring option"
  | Anchor jsstring jsstring
  | Button jsstring "jsstring option" "action list"

datatype division = Division jsstring "element list"

fun statusText :: "ProcessState \<Rightarrow> jsstring" where
  "statusText stopped = js ''Stopped''"
| "statusText starting = js ''Starting...''"
| "statusText running = js ''Running''"
| "statusText error = js ''Error''"

fun statusClass :: "ProcessState \<Rightarrow> jsstring" where
  "statusClass stopped = js ''status-stopped''"
| "statusClass starting = js ''status-starting''"
| "statusClass running = js ''status-running''"
| "statusClass error = js ''status-error''"

text \<open>The children of the button container.\<close>

definition controls :: "ProcessState \<Rightarrow> element list" where
  "controls state =
     (if state = stopped \<or> state = error
      then [Button (js ''Start Server'') (Some (js ''mod-cta''))
              [StartServer, RenderServerStatus]]
      else [])
     @ (if state = running
        then [Button (js ''Stop Server'') None [StopServer, RenderServerStatus],
              Button (js ''Restart Server'') (Some (js ''mod-warning''))
                [StopServer, StartServer, RenderServerStatus]]
        else [])
     @ (if state = starting
        then [Span (js ''Please wait...'') (Some (js ''opencode-status-waiting''))]
        else [])"

definition renderServerStatus :: "ProcessState \<Rightarrow> jsstring \<Rightarrow> division list" where
  "renderServerStatus state serverUrl =
     [Division (js ''opencode-status-line'')
        [Span (js ''Status: '') None,
         Span (statusText state) (Some (js ''opencode-status-badge '' @ statusClass state))]]
     @ (if state = running
        then [Division (js ''opencode-status-line'')
                [Span (js ''URL: '') None, Anchor serverUrl serverUrl]]
        else [])
     @ [Division (js ''opencode-settings-buttons'') (controls state)]"

text \<open>The click listeners of the buttons in a list of elements.\<close>

fun listeners :: "element list \<Rightarrow> (jsstring \<times> action list) list" where
  "listeners [] = []"
| "listeners (Button label cls acts # rest) = (label, acts) # listeners rest"
| "listeners (x # rest) = listeners rest"

text \<open>The click listeners of the whole panel.\<close>

fun panel_listeners :: "division list \<Rightarrow> (jsstring \<times> action list) list" where
  "panel_listeners [] = []"
| "panel_listeners (Division cls children # rest) = listeners children @ panel_listeners rest"

section \<open>Ranges and example data\<close>

text \<open>The range of a port: an integer strictly between 0 and 65536.\<close>

definition valid_port :: "int \<Rightarrow> bool" where
  "valid_port n \<longleftrightarrow> 0 < n \<and> n < 65536"

text \<open>
  A small environment for the examples: the home directory is \<open>/home/u\<close>, the directory
  \<open>/home/u/vault\<close> and the file \<open>/etc/hosts\<close> exist, \<open>/lost+found\<close> exists but may not
  be read, and \<open>statSync\<close> throws for any other path.
\<close>

definition example_env :: env where
  "example_env =
     \<lparr>homedir = js ''/home/u'',
      existsSync = (\<lambda>path. Inr (path = js ''/home/u/vault'' \<or> path = js ''/etc/hosts''
                                 \<or> path = js ''/lost+found'')),
      statSync = (\<lambda>path.
         if path = js ''/home/u/vault'' then Inr \<lparr>isDirectory = True\<rparr>
         else if path = js ''/etc/hosts'' then Inr \<lparr>isDirectory = False\<rparr>
         else if path = js ''/lost+found'' then Inl (Error (js ''EACCES: permission denied''))
         else Inl (Error (js ''ENOENT: no such file or directory'')))\<rparr>"

text \<open>The plugin with the default settings and no call made yet.\<close>

definition example_plugin :: plugin where
  "example_plugin =
     \<lparr>settings = \<lparr>port = 14096, hostname = js ''127.0.0.1'', opencodePath = js ''opencode'',
                  projectDirectory = js '''', autoStart = False\<rparr>,
      calls = []\<rparr>"

text \<open>A settings tab that was just opened: no timer was ever set.\<close>

definition example_tab :: tab where
  "example_tab =
     \<lparr>plugin = example_plugin, validateTimeout = None, now = 0, nextHandle = 1, pending = []\<rparr>"

text \<open>
  The tilde expansion in the words of the settings page (it says: Supports \<open>~\<close> for home
  directory): \<open>~\<close> is the home directory, a leading \<open>~\<close> before \<open>/\<close> is replaced by the
  home directory, and any other path is left alone. It is written down apart from the
  code, to compare \<open>expandTilde\<close> with it.
\<close>

definition tilde_expanded_path :: "env \<Rightarrow> jsstring \<Rightarrow> jsstring" where
  "tilde_expanded_path e path =
     (if path = js ''~'' then homedir e
      else if startsWith path (js ''~/'') then homedir e @ tl path
      else path)"

text \<open>
  An environment whose home directory has a dollar sign twice in its name: the home
  directory is \<open>/tmp/cash$$\<close>, with a directory \<open>notes\<close> in it, and beside it there is a
  directory \<open>/tmp/cash$\<close> that has a directory \<open>notes\<close> too.
\<close>

definition dollar_env :: env where
  "dollar_env =
     \<lparr>homedir = js ''/tmp/cash$$'',
      existsSync = (\<lambda>path. Inr (path = js ''/tmp/cash$$'' \<or> path = js ''/tmp/cash$$/notes''
                                 \<or> path = js ''/tmp/cash$'' \<or> path = js ''/tmp/cash$/notes'')),
      statSync = (\<lambda>path.
         if path = js ''/tmp/cash$$'' \<or> path = js ''/tmp/cash$$/notes''
            \<or> path = js ''/tmp/cash$'' \<or> path = js ''/tmp/cash$/notes''
         then Inr \<lparr>isDirectory = True\<rparr>
         else Inl (Error (js ''ENOENT: no such file or directory'')))\<rparr>"

section \<open>Facts about the string functions\<close>

lemma startsWith_iff: "startsWith s p \<longleftrightarrow> (\<exists>t. s = p @ t)"
  by (induction s p rule: startsWith.induct) auto

lemma getSubstitution_plain: "0x24 \<notin> set r \<Longrightarrow> getSubstitution m s pos r = r"
  by (induction m s pos r rule: getSubstitution.induct) auto

lemma matchesDriveLetter_iff:
  "matchesDriveLetter t \<longleftrightarrow> (\<exists>a rest. isAsciiLetter a \<and> t = a # 0x3A # 0x5C # rest)"
  by (cases t rule: matchesDriveLetter.cases) auto

text \<open>The trimmed string is empty exactly when the string has white space only.\<close>

lemma trim_Nil_iff: "trim v = [] \<longleftrightarrow> (\<forall>c\<in>set v. isWhiteSpace c)"
proof
  assume "trim v = []"
  then have all: "\<forall>c\<in>set (dropWhile isWhiteSpace v). isWhiteSpace c"
    by (simp add: trim_def trimEnd_def trimStart_def dropWhile_eq_Nil_conv)
  have "dropWhile isWhiteSpace v = []"
  proof (rule ccontr)
    assume ne: "dropWhile isWhiteSpace v \<noteq> []"
    then have "\<not> isWhiteSpace (hd (dropWhile isWhiteSpace v))" by (rule hd_dropWhile)
    moreover have "hd (dropWhile isWhiteSpace v) \<in> set (dropWhile isWhiteSpace v)"
      using ne by simp
    ultimately show False using all by blast
  qed
  then show "\<forall>c\<in>set v. isWhiteSpace c" by (simp add: dropWhile_eq_Nil_conv)
next
  assume "\<forall>c\<in>set v. isWhiteSpace c"
  then have dw: "dropWhile isWhiteSpace v = []" by (simp add: dropWhile_eq_Nil_conv)
  show "trim v = []" unfolding trim_def trimEnd_def trimStart_def dw by simp
qed

lemma trim_example: "trim (js '' ~/vault '') = js ''~/vault''"
  by (simp add: trim_def trimEnd_def trimStart_def js_def isWhiteSpace_def)

section \<open>The port field\<close>

text \<open>
  Claim C1. A change event on the Port field stores the new value, and saves the settings,
  only when \<open>parseInt(value, 10)\<close> is an integer strictly between 0 and 65536; for every
  other input (NaN, or a number out of that range) the handler changes nothing, so the
  stored port is the one stored before. Hence a stored port that is in the range stays
  in the range after any change event.
\<close>

theorem port_onChange_valid:
  "(case parseInt v of
      None \<Rightarrow> port_onChange v p = p
    | Some n \<Rightarrow>
        if valid_port n
        then port_onChange v p = do_call SaveSettings (p\<lparr>settings := (settings p)\<lparr>port := n\<rparr>\<rparr>)
        else port_onChange v p = p)
   \<and> (valid_port (port (settings p)) \<longrightarrow> valid_port (port (settings (port_onChange v p))))"
  by (simp add: port_onChange_def valid_port_def do_call_def split: option.splits)

theorem port_onChange_valid_witness:
  "valid_port (port (settings example_plugin))
   \<and> port (settings (port_onChange (js ''8080'') example_plugin)) = 8080
   \<and> port_onChange (js ''70000'') example_plugin = example_plugin
   \<and> port_onChange (js ''http'') example_plugin = example_plugin
   \<and> valid_port (port (settings (port_onChange (js ''8080'') example_plugin)))"
  using port_onChange_valid [of "js ''8080''" example_plugin]
    port_onChange_valid [of "js ''70000''" example_plugin]
    port_onChange_valid [of "js ''http''" example_plugin]
  by (simp add: valid_port_def example_plugin_def parseInt_def js_def trimStart_def
        isWhiteSpace_def isDigit_def mathInt_def digitValue_def do_call_def)

section \<open>The hostname and path fields\<close>

text \<open>
  Claim C2. A change event on the Hostname field with the empty string stores
  \<open>127.0.0.1\<close>, one on the OpenCode path field with the empty string stores \<open>opencode\<close>;
  a non-empty input is stored as it is. After such an event neither setting is the
  empty string.
\<close>

theorem text_fields_never_empty:
  "hostname (settings (hostname_onChange v p)) = (if v = js '''' then js ''127.0.0.1'' else v)
   \<and> hostname (settings (hostname_onChange v p)) \<noteq> js ''''
   \<and> opencodePath (settings (opencodePath_onChange v p))
       = (if v = js '''' then js ''opencode'' else v)
   \<and> opencodePath (settings (opencodePath_onChange v p)) \<noteq> js ''''"
  by (simp add: hostname_onChange_def opencodePath_onChange_def or_default_def do_call_def js_def)

theorem text_fields_never_empty_witness:
  "hostname (settings (hostname_onChange (js '''') example_plugin)) = js ''127.0.0.1''
   \<and> hostname (settings (hostname_onChange (js ''localhost'') example_plugin)) = js ''localhost''
   \<and> opencodePath (settings (opencodePath_onChange (js '''') example_plugin)) = js ''opencode''
   \<and> opencodePath (settings (opencodePath_onChange (js ''/usr/bin/opencode'') example_plugin))
       = js ''/usr/bin/opencode''"
  using text_fields_never_empty [of "js ''''" example_plugin]
    text_fields_never_empty [of "js ''localhost''" example_plugin]
    text_fields_never_empty [of "js ''/usr/bin/opencode''" example_plugin]
  by (simp add: js_def)

section \<open>Tilde expansion\<close>

text \<open>
  \<open>~\<close> becomes the home directory, and a string that is not \<open>~\<close> and does not begin
  with \<open>~/\<close> is returned as it is. When the home directory has no dollar sign, the
  \<open>~\<close> of a leading \<open>~/\<close> is replaced by the home directory.
\<close>

lemma expandTilde_home: "expandTilde e (js ''~'') = homedir e"
  by (simp add: expandTilde_def)

lemma expandTilde_other:
  "path \<noteq> js ''~'' \<Longrightarrow> \<not> startsWith path (js ''~/'') \<Longrightarrow> expandTilde e path = path"
  by (simp add: expandTilde_def)

lemma expandTilde_plain_home:
  "0x24 \<notin> set (homedir e) \<Longrightarrow> expandTilde e (js ''~/'' @ rest) = homedir e @ js ''/'' @ rest"
  by (simp add: expandTilde_def replace_def getSubstitution_plain js_def)

text \<open>
  Claim C3. \<open>expandTilde\<close> maps \<open>~\<close> to the home directory, a string that begins with
  \<open>~/\<close> to the same string with the leading \<open>~\<close> replaced by the home directory, and
  returns every other string unchanged. The second part fails where the home directory
  holds a \<open>$\<close> pattern of \<open>String.prototype.replace\<close>: with the home directory
  \<open>/home/cash$$\<close>, the path \<open>~/notes\<close> becomes \<open>/home/cash$/notes\<close>, which is not the
  home directory followed by \<open>/notes\<close>.
\<close>

theorem expandTilde_dollar_home:
  "expandTilde (example_env\<lparr>homedir := js ''/home/cash$$''\<rparr>) (js ''~/notes'')
     = js ''/home/cash$/notes''
   \<and> expandTilde (example_env\<lparr>homedir := js ''/home/cash$$''\<rparr>) (js ''~/notes'')
     \<noteq> js ''/home/cash$$'' @ js ''/notes''"
  by (simp add: expandTilde_def replace_def js_def example_env_def)

section \<open>Validation of the project directory\<close>

text \<open>
  When the trimmed input passes every check, the handler calls \<open>updateProjectDirectory\<close>
  once, with what \<open>expandTilde\<close> returned for the trimmed input.
\<close>

lemma valid_directory_calls_update:
  assumes "trim v \<noteq> js ''''"
    and "startsWith (trim v) (js ''/'') \<or> startsWith (trim v) (js ''~'')
         \<or> matchesDriveLetter (trim v)"
    and "existsSync e (expandTilde e (trim v)) = Inr True"
    and "statSync e (expandTilde e (trim v)) = Inr st"
    and "isDirectory st"
  shows "validateAndSetProjectDirectory e v p
           = do_call (UpdateProjectDirectory (expandTilde e (trim v))) p
         \<and> calls (validateAndSetProjectDirectory e v p)
           = calls p @ [UpdateProjectDirectory (expandTilde e (trim v))]"
  using assms
  by (auto simp: validateAndSetProjectDirectory_def isAbsoluteForm_def checkDirectory_def
        do_call_def js_def Let_def)

lemma valid_directory_calls_update_example:
  "calls (validateAndSetProjectDirectory example_env (js '' ~/vault '') example_plugin)
     = [UpdateProjectDirectory (js ''/home/u/vault'')]"
proof -
  have x: "expandTilde example_env (js ''~/vault'') = js ''/home/u/vault''"
    by (simp add: expandTilde_def replace_def js_def example_env_def)
  have h1: "trim (js '' ~/vault '') \<noteq> js ''''"
    unfolding trim_example by (simp add: js_def)
  have h2: "startsWith (trim (js '' ~/vault '')) (js ''/'')
            \<or> startsWith (trim (js '' ~/vault '')) (js ''~'')
            \<or> matchesDriveLetter (trim (js '' ~/vault ''))"
    unfolding trim_example by (simp add: js_def)
  have h3: "existsSync example_env (expandTilde example_env (trim (js '' ~/vault ''))) = Inr True"
    unfolding trim_example x by (simp add: example_env_def)
  have h4: "statSync example_env (expandTilde example_env (trim (js '' ~/vault '')))
            = Inr \<lparr>isDirectory = True\<rparr>"
    unfolding trim_example x by (simp add: example_env_def)
  have h5: "isDirectory \<lparr>isDirectory = True\<rparr>"
    by simp
  from valid_directory_calls_update [OF h1 h2 h3 h4 h5, of example_plugin]
  show ?thesis
    unfolding trim_example x by (simp add: example_plugin_def do_call_def)
qed

text \<open>
  When the home directory has no dollar sign, what \<open>expandTilde\<close> returns is the
  tilde-expanded path, and that is what the handler stores.
\<close>

lemma expandTilde_is_expansion:
  assumes "0x24 \<notin> set (homedir e)"
  shows "expandTilde e path = tilde_expanded_path e path"
proof (cases "startsWith path (js ''~/'')")
  case True
  then obtain rest where p: "path = js ''~/'' @ rest"
    by (auto simp: startsWith_iff)
  have "expandTilde e (js ''~/'' @ rest) = homedir e @ js ''/'' @ rest"
    using assms by (rule expandTilde_plain_home)
  moreover have "tilde_expanded_path e (js ''~/'' @ rest) = homedir e @ js ''/'' @ rest"
    by (simp add: tilde_expanded_path_def js_def)
  ultimately show ?thesis by (simp add: p)
next
  case False
  then show ?thesis by (simp add: expandTilde_def tilde_expanded_path_def)
qed

lemma valid_directory_plain_home:
  assumes "0x24 \<notin> set (homedir e)"
    and "trim v \<noteq> js ''''"
    and "startsWith (trim v) (js ''/'') \<or> startsWith (trim v) (js ''~'')
         \<or> matchesDriveLetter (trim v)"
    and "existsSync e (tilde_expanded_path e (trim v)) = Inr True"
    and "statSync e (tilde_expanded_path e (trim v)) = Inr st"
    and "isDirectory st"
  shows "validateAndSetProjectDirectory e v p
           = do_call (UpdateProjectDirectory (tilde_expanded_path e (trim v))) p"
  using assms(2-) unfolding expandTilde_is_expansion [OF assms(1), symmetric]
  by (auto simp: validateAndSetProjectDirectory_def isAbsoluteForm_def checkDirectory_def
        do_call_def js_def Let_def)

lemma trim_example_notes: "trim (js ''~/notes'') = js ''~/notes''"
  by (simp add: trim_def trimEnd_def trimStart_def js_def isWhiteSpace_def)

lemma expandTilde_example_notes:
  "expandTilde dollar_env (js ''~/notes'') = js ''/tmp/cash$/notes''"
  by (simp add: expandTilde_def replace_def js_def dollar_env_def)

text \<open>
  Claim C4. When the trimmed input passes every check (it has the form of an absolute
  path, the path exists, and it is a directory), the value handed to
  \<open>updateProjectDirectory\<close> is the tilde-expanded path. This fails where the home
  directory holds a \<open>$\<close> pattern of \<open>String.prototype.replace\<close>: with the home directory
  \<open>/tmp/cash$$\<close> and the directory \<open>/tmp/cash$/notes\<close> on the disk, the input \<open>~/notes\<close>
  passes every check, and the handler stores \<open>/tmp/cash$/notes\<close>, where the
  tilde-expanded path is \<open>/tmp/cash$$/notes\<close>.
\<close>

theorem valid_directory_dollar_home:
  "trim (js ''~/notes'') \<noteq> js ''''
   \<and> isAbsoluteForm (trim (js ''~/notes''))
   \<and> existsSync dollar_env (expandTilde dollar_env (trim (js ''~/notes''))) = Inr True
   \<and> statSync dollar_env (expandTilde dollar_env (trim (js ''~/notes'')))
       = Inr \<lparr>isDirectory = True\<rparr>
   \<and> validateAndSetProjectDirectory dollar_env (js ''~/notes'') example_plugin
       = do_call (UpdateProjectDirectory (js ''/tmp/cash$/notes'')) example_plugin
   \<and> tilde_expanded_path dollar_env (trim (js ''~/notes'')) = js ''/tmp/cash$$/notes''
   \<and> js ''/tmp/cash$/notes'' \<noteq> js ''/tmp/cash$$/notes''"
proof -
  have n: "js ''~/notes'' \<noteq> js ''''" by (simp add: js_def)
  have a: "isAbsoluteForm (js ''~/notes'')" by (simp add: isAbsoluteForm_def js_def)
  have ex: "existsSync dollar_env (js ''/tmp/cash$/notes'') = Inr True"
    by (simp add: dollar_env_def js_def)
  have st: "statSync dollar_env (js ''/tmp/cash$/notes'') = Inr \<lparr>isDirectory = True\<rparr>"
    by (simp add: dollar_env_def js_def)
  have c: "checkDirectory dollar_env (js ''/tmp/cash$/notes'') = Inr (js ''/tmp/cash$/notes'')"
    by (simp add: checkDirectory_def ex st)
  have v: "validateAndSetProjectDirectory dollar_env (js ''~/notes'') example_plugin
       = do_call (UpdateProjectDirectory (js ''/tmp/cash$/notes'')) example_plugin"
    unfolding validateAndSetProjectDirectory_def trim_example_notes Let_def
      expandTilde_example_notes c
    using n a by (simp add: js_def)
  have sp: "tilde_expanded_path dollar_env (js ''~/notes'') = js ''/tmp/cash$$/notes''"
    by (simp add: tilde_expanded_path_def dollar_env_def js_def)
  have d: "js ''/tmp/cash$/notes'' \<noteq> js ''/tmp/cash$$/notes''"
    by (simp add: js_def)
  show ?thesis
    unfolding trim_example_notes expandTilde_example_notes
    using n a ex st v sp d by blast
qed

lemma trim_example_relative: "trim (js ''notes/project'') = js ''notes/project''"
  by (simp add: trim_def trimEnd_def trimStart_def js_def isWhiteSpace_def)

text \<open>
  Claim C5. A trimmed input that is not empty, does not start with \<open>/\<close> or \<open>~\<close> and
  does not start with a drive letter (an ASCII letter, a colon and a backslash) fails
  validation: the user gets a notice, \<open>updateProjectDirectory\<close> is not called and the
  settings are not touched.
\<close>

theorem relative_path_rejected:
  assumes "trim v \<noteq> js ''''"
    and "\<not> startsWith (trim v) (js ''/'')"
    and "\<not> startsWith (trim v) (js ''~'')"
    and "\<not> (\<exists>a rest. isAsciiLetter a \<and> trim v = a # 0x3A # 0x5C # rest)"
  shows "validateAndSetProjectDirectory e v p
           = do_call (Notice (js ''Project directory must be an absolute path (or start with ~)'')) p
         \<and> calls (validateAndSetProjectDirectory e v p)
           = calls p @ [Notice (js ''Project directory must be an absolute path (or start with ~)'')]
         \<and> settings (validateAndSetProjectDirectory e v p) = settings p"
  using assms
  by (simp add: validateAndSetProjectDirectory_def isAbsoluteForm_def matchesDriveLetter_iff
        do_call_def js_def)

theorem relative_path_rejected_witness:
  "validateAndSetProjectDirectory example_env (js ''notes/project'') example_plugin
     = example_plugin
         \<lparr>calls := [Notice (js ''Project directory must be an absolute path (or start with ~)'')]\<rparr>"
proof -
  have h1: "trim (js ''notes/project'') \<noteq> js ''''"
    unfolding trim_example_relative by (simp add: js_def)
  have h2: "\<not> startsWith (trim (js ''notes/project'')) (js ''/'')"
    unfolding trim_example_relative by (simp add: js_def)
  have h3: "\<not> startsWith (trim (js ''notes/project'')) (js ''~'')"
    unfolding trim_example_relative by (simp add: js_def)
  have h4: "\<not> (\<exists>a rest. isAsciiLetter a \<and> trim (js ''notes/project'') = a # 0x3A # 0x5C # rest)"
    unfolding trim_example_relative by (simp add: js_def)
  from relative_path_rejected [OF h1 h2 h3 h4, of example_env example_plugin]
  show ?thesis
    by (simp add: do_call_def example_plugin_def)
qed

text \<open>
  An exception of \<open>existsSync\<close> or \<open>statSync\<close> is caught inside the handler: what the
  user sees is a notice with the message of the exception.
\<close>

lemma exception_becomes_notice:
  assumes "trim v \<noteq> js ''''"
    and "isAbsoluteForm (trim v)"
    and "existsSync e (expandTilde e (trim v)) = Inl err
         \<or> (existsSync e (expandTilde e (trim v)) = Inr True
            \<and> statSync e (expandTilde e (trim v)) = Inl err)"
  shows "validateAndSetProjectDirectory e v p
           = do_call (Notice (js ''Failed to validate path: '' @ message err)) p"
  using assms
  by (auto simp: validateAndSetProjectDirectory_def checkDirectory_def js_def Let_def)

lemma trim_example_unreadable: "trim (js ''/lost+found'') = js ''/lost+found''"
  by (simp add: trim_def trimEnd_def trimStart_def js_def isWhiteSpace_def)

text \<open>
  Claim C8. When the validation of a non-empty input fails, whatever the reason (the
  form is not absolute, the path does not exist, it is not a directory, or \<open>existsSync\<close>
  or \<open>statSync\<close> throws), the handler returns after one notice:
  \<open>updateProjectDirectory\<close> is not called, the settings are as they were, and no
  exception leaves the handler.
\<close>

theorem failed_validation_keeps_directory:
  assumes "trim v \<noteq> js ''''"
    and "\<not> isAbsoluteForm (trim v)
         \<or> existsSync e (expandTilde e (trim v)) = Inr False
         \<or> (\<exists>err. existsSync e (expandTilde e (trim v)) = Inl err)
         \<or> (\<exists>err. statSync e (expandTilde e (trim v)) = Inl err)
         \<or> (\<exists>st. statSync e (expandTilde e (trim v)) = Inr st \<and> \<not> isDirectory st)"
  shows "\<exists>text. validateAndSetProjectDirectory e v p = do_call (Notice text) p
           \<and> calls (validateAndSetProjectDirectory e v p) = calls p @ [Notice text]
           \<and> settings (validateAndSetProjectDirectory e v p) = settings p"
  using assms
  by (auto simp: validateAndSetProjectDirectory_def checkDirectory_def do_call_def js_def Let_def
        split: sum.splits)

theorem failed_validation_keeps_directory_witness:
  "\<exists>text. validateAndSetProjectDirectory example_env (js ''/lost+found'') example_plugin
             = do_call (Notice text) example_plugin
           \<and> calls (validateAndSetProjectDirectory example_env (js ''/lost+found'') example_plugin)
             = calls example_plugin @ [Notice text]
           \<and> settings (validateAndSetProjectDirectory example_env (js ''/lost+found'') example_plugin)
             = settings example_plugin"
proof -
  have x: "expandTilde example_env (js ''/lost+found'') = js ''/lost+found''"
    by (simp add: expandTilde_def js_def)
  have h1: "trim (js ''/lost+found'') \<noteq> js ''''"
    unfolding trim_example_unreadable by (simp add: js_def)
  have "statSync example_env (expandTilde example_env (trim (js ''/lost+found'')))
          = Inl (Error (js ''EACCES: permission denied''))"
    unfolding trim_example_unreadable x by (simp add: example_env_def js_def)
  then have h2: "\<not> isAbsoluteForm (trim (js ''/lost+found''))
         \<or> existsSync example_env (expandTilde example_env (trim (js ''/lost+found''))) = Inr False
         \<or> (\<exists>err. existsSync example_env (expandTilde example_env (trim (js ''/lost+found''))) = Inl err)
         \<or> (\<exists>err. statSync example_env (expandTilde example_env (trim (js ''/lost+found''))) = Inl err)
         \<or> (\<exists>st. statSync example_env (expandTilde example_env (trim (js ''/lost+found''))) = Inr st
                 \<and> \<not> isDirectory st)"
    by blast
  show ?thesis
    by (rule failed_validation_keeps_directory [OF h1 h2])
qed

text \<open>
  Claim C9. An input that is empty after trimming (it is empty or has white space only)
  is accepted with no check of its form and no look at the file system, whatever the
  environment: \<open>updateProjectDirectory\<close> is called with the empty string, which stands
  for the vault root.
\<close>

theorem blank_directory_means_vault_root:
  "(trim v = js '''' \<longleftrightarrow> (\<forall>c\<in>set v. isWhiteSpace c))
   \<and> (trim v = js '''' \<longrightarrow>
        validateAndSetProjectDirectory e v p = do_call (UpdateProjectDirectory (js '''')) p)"
  using trim_Nil_iff [of v]
  by (simp add: validateAndSetProjectDirectory_def js_def)

theorem blank_directory_means_vault_root_witness:
  "validateAndSetProjectDirectory
     \<lparr>homedir = js '''', existsSync = (\<lambda>path. Inl (Error (js ''EIO''))),
      statSync = (\<lambda>path. Inl (Error (js ''EIO'')))\<rparr>
     (js ''   '') example_plugin
   = example_plugin\<lparr>calls := [UpdateProjectDirectory (js '''')]\<rparr>"
proof -
  have "trim (js ''   '') = js ''''"
    by (simp add: trim_def trimEnd_def trimStart_def js_def isWhiteSpace_def)
  with blank_directory_means_vault_root [of "js ''   ''" _ example_plugin]
  show ?thesis
    by (simp add: do_call_def example_plugin_def)
qed

lemma trim_example_user: "trim (js ''~user/project'') = js ''~user/project''"
  by (simp add: trim_def trimEnd_def trimStart_def js_def isWhiteSpace_def)

text \<open>
  Claim C10. A trimmed input that begins with \<open>~\<close> but is neither \<open>~\<close> nor begins with
  \<open>~/\<close> (such as \<open>~user/project\<close>) passes the check of the absolute form, and
  \<open>expandTilde\<close> returns it unchanged; so the handler applies the existence and the
  directory check to that very string, and stores that very string when they succeed.
\<close>

theorem other_tilde_forms_not_expanded:
  assumes "startsWith t (js ''~'')"
    and "t \<noteq> js ''~''"
    and "\<not> startsWith t (js ''~/'')"
  shows "isAbsoluteForm t
         \<and> expandTilde e t = t
         \<and> (trim v = t \<longrightarrow>
              validateAndSetProjectDirectory e v p
                = (case checkDirectory e t of
                     Inl text \<Rightarrow> do_call (Notice text) p
                   | Inr dir \<Rightarrow> do_call (UpdateProjectDirectory dir) p))"
  using assms
  by (auto simp: validateAndSetProjectDirectory_def isAbsoluteForm_def expandTilde_def js_def)

theorem other_tilde_forms_not_expanded_witness:
  "isAbsoluteForm (js ''~user/project'')
   \<and> expandTilde example_env (js ''~user/project'') = js ''~user/project''
   \<and> validateAndSetProjectDirectory example_env (js ''~user/project'') example_plugin
     = do_call (Notice (js ''Project directory does not exist'')) example_plugin"
proof -
  have h1: "startsWith (js ''~user/project'') (js ''~'')" by (simp add: js_def)
  have h2: "js ''~user/project'' \<noteq> js ''~''" by (simp add: js_def)
  have h3: "\<not> startsWith (js ''~user/project'') (js ''~/'')" by (simp add: js_def)
  have c: "checkDirectory example_env (js ''~user/project'')
             = Inl (js ''Project directory does not exist'')"
    by (simp add: checkDirectory_def example_env_def js_def)
  from other_tilde_forms_not_expanded [OF h1 h2 h3, of example_env "js ''~user/project''" example_plugin]
  show ?thesis
    unfolding trim_example_user c by simp
qed

section \<open>Debouncing\<close>

lemma onChange_armed:
  assumes "armed t v d \<or> (pending t = [] \<and> nextHandle t \<noteq> 0)"
  shows "armed (projectDirectory_onChange w t) w (now t + 500)
         \<and> plugin (projectDirectory_onChange w t) = plugin t
         \<and> now (projectDirectory_onChange w t) = now t"
  using assms
  by (auto simp: armed_def projectDirectory_onChange_def setTimeout_def clearTimeout_def
        split: option.splits)

lemma advance_before_due:
  assumes "armed t v d" and "now t + gap < d"
  shows "armed (advance e gap t) v d
         \<and> plugin (advance e gap t) = plugin t
         \<and> now (advance e gap t) = now t + gap"
  using assms
  by (auto simp: armed_def advance_def Let_def split: option.splits)

lemma advance_after_due:
  assumes "armed t v d" and "d \<le> now t + gap"
  shows "pending (advance e gap t) = []
         \<and> plugin (advance e gap t) = validateAndSetProjectDirectory e v (plugin t)"
  using assms
  by (auto simp: armed_def advance_def fire_def Let_def split: option.splits)

lemma advance_idle:
  assumes "pending t = []"
  shows "advance e gap t = t\<lparr>now := now t + gap\<rparr>"
  using assms by (simp add: advance_def)

lemma burst:
  assumes "armed t v (now t + 500)" and "\<forall>x\<in>set es. fst x < 500"
  shows "armed (edits e es t) (snd (last ((g, v) # es))) (now (edits e es t) + 500)
         \<and> plugin (edits e es t) = plugin t"
  using assms
proof (induction es arbitrary: t v g)
  case Nil
  then show ?case by simp
next
  case (Cons x es)
  obtain gap w where x: "x = (gap, w)" by (cases x)
  let ?t1 = "advance e gap t"
  let ?t2 = "projectDirectory_onChange w ?t1"
  from Cons.prems x have gap: "now t + gap < now t + 500" by simp
  from advance_before_due [OF Cons.prems(1) gap]
  have a1: "armed ?t1 v (now t + 500)" and p1: "plugin ?t1 = plugin t" by simp_all
  from onChange_armed [of ?t1 v "now t + 500" w] a1
  have a2: "armed ?t2 w (now ?t2 + 500)" and p2: "plugin ?t2 = plugin ?t1" by simp_all
  from Cons.prems have rest: "\<forall>x\<in>set es. fst x < 500" by simp
  from Cons.IH [OF a2 rest, of gap]
  show ?case by (simp add: x p1 p2)
qed

lemma validate_example_vault:
  "validateAndSetProjectDirectory example_env (js ''/home/u/vault'') example_plugin
     = example_plugin\<lparr>calls := [UpdateProjectDirectory (js ''/home/u/vault'')]\<rparr>"
proof -
  have t: "trim (js ''/home/u/vault'') = js ''/home/u/vault''"
    by (simp add: trim_def trimEnd_def trimStart_def js_def isWhiteSpace_def)
  have x: "expandTilde example_env (js ''/home/u/vault'') = js ''/home/u/vault''"
    by (simp add: expandTilde_def js_def)
  have c: "checkDirectory example_env (js ''/home/u/vault'') = Inr (js ''/home/u/vault'')"
    by (simp add: checkDirectory_def example_env_def js_def)
  have a: "isAbsoluteForm (js ''/home/u/vault'')"
    by (simp add: isAbsoluteForm_def js_def)
  have n: "js ''/home/u/vault'' \<noteq> []"
    by (simp add: js_def)
  show ?thesis
    unfolding validateAndSetProjectDirectory_def t Let_def x c using a n
    by (simp add: do_call_def example_plugin_def)
qed

text \<open>
  Claim C6. A change event on the project-directory field cancels the pending timer and
  sets a new one that is due 500 ms later: after it, the only pending timer is the one
  of this event. So in a run of edits that follow each other by less than 500 ms,
  nothing is validated while the run lasts and for less than 500 ms after it; 500 ms
  after the last edit the last value, and only that one, is validated (and stored when
  it is valid). The validation of an edit that was superseded never runs.
\<close>

theorem debounce_validates_last_edit_only:
  assumes "pending t = []" and "nextHandle t \<noteq> 0"
    and "\<forall>x\<in>set es. fst x < 500"
  shows "armed (projectDirectory_onChange v t) v (now t + 500)
         \<and> (armed t' v' d' \<longrightarrow> armed (projectDirectory_onChange w t') w (now t' + 500))
         \<and> plugin (edits e ((g, v) # es) t) = plugin t
         \<and> (d < 500 \<longrightarrow> plugin (advance e d (edits e ((g, v) # es) t)) = plugin t)
         \<and> (500 \<le> d \<longrightarrow>
              plugin (advance e d (edits e ((g, v) # es) t))
                = validateAndSetProjectDirectory e (snd (last ((g, v) # es))) (plugin t)
              \<and> pending (advance e d (edits e ((g, v) # es) t)) = [])"
proof -
  let ?t1 = "advance e g t"
  let ?t2 = "projectDirectory_onChange v ?t1"
  let ?t3 = "edits e es ?t2"
  let ?last = "snd (last ((g, v) # es))"
  have t1: "?t1 = t\<lparr>now := now t + g\<rparr>"
    using assms(1) by (rule advance_idle)
  have idle: "pending ?t1 = [] \<and> nextHandle ?t1 \<noteq> 0"
    using assms(1,2) by (simp add: t1)
  from onChange_armed [of ?t1 v 0 v] idle
  have a2: "armed ?t2 v (now ?t2 + 500)" and p2: "plugin ?t2 = plugin t"
    by (simp_all add: t1)
  from burst [OF a2 assms(3), of e g]
  have a3: "armed ?t3 ?last (now ?t3 + 500)" and p3: "plugin ?t3 = plugin t"
    by (simp_all add: p2)
  have e3: "edits e ((g, v) # es) t = ?t3" by simp
  have first: "armed (projectDirectory_onChange v t) v (now t + 500)"
    using onChange_armed [of t v 0 v] assms(1,2) by simp
  have step: "armed t' v' d' \<longrightarrow> armed (projectDirectory_onChange w t') w (now t' + 500)"
    using onChange_armed [of t' v' d' w] by simp
  have early: "d < 500 \<longrightarrow> plugin (advance e d ?t3) = plugin t"
    using advance_before_due [OF a3, of d e] by (simp add: p3)
  have late: "500 \<le> d \<longrightarrow>
              plugin (advance e d ?t3) = validateAndSetProjectDirectory e ?last (plugin t)
              \<and> pending (advance e d ?t3) = []"
    using advance_after_due [OF a3, of d e] by (simp add: p3)
  show ?thesis
    unfolding e3 using first step p3 early late by blast
qed

theorem debounce_validates_last_edit_only_witness:
  "plugin (edits example_env
             [(0, js ''/h''), (120, js ''/home/u''), (300, js ''/home/u/vault'')] example_tab)
     = example_plugin
   \<and> plugin (advance example_env 500
       (edits example_env
          [(0, js ''/h''), (120, js ''/home/u''), (300, js ''/home/u/vault'')] example_tab))
     = example_plugin\<lparr>calls := [UpdateProjectDirectory (js ''/home/u/vault'')]\<rparr>"
proof -
  have h1: "pending example_tab = []" by (simp add: example_tab_def)
  have h2: "nextHandle example_tab \<noteq> 0" by (simp add: example_tab_def)
  have h3: "\<forall>x\<in>set [(120, js ''/home/u''), (300, js ''/home/u/vault'')]. fst x < (500::nat)"
    by simp
  have p: "plugin example_tab = example_plugin" by (simp add: example_tab_def)
  from debounce_validates_last_edit_only [OF h1 h2 h3, of "js ''/h''" example_tab "js ''''" 0
      "js ''''" example_env 0 500]
  show ?thesis
    unfolding p by (simp add: validate_example_vault)
qed

section \<open>The lifecycle controls\<close>

text \<open>
  Claim C7. The status panel has a Start Server button exactly when the state is
  \<open>stopped\<close> or \<open>error\<close>, the Stop Server and Restart Server buttons exactly when it
  is \<open>running\<close>, and no button when it is \<open>starting\<close>. So a listener that begins with
  \<open>startServer\<close> is rendered only for \<open>stopped\<close> and \<open>error\<close>, and a listener that
  calls \<open>stopServer\<close> only for \<open>running\<close>; the Restart listener calls \<open>startServer\<close>
  right after \<open>stopServer\<close>.
\<close>

theorem lifecycle_controls_by_state:
  "panel_listeners (renderServerStatus state url)
     = (if state = stopped \<or> state = error
        then [(js ''Start Server'', [StartServer, RenderServerStatus])]
        else if state = running
        then [(js ''Stop Server'', [StopServer, RenderServerStatus]),
              (js ''Restart Server'', [StopServer, StartServer, RenderServerStatus])]
        else [])
   \<and> (\<forall>label acts. (label, acts) \<in> set (panel_listeners (renderServerStatus state url)) \<longrightarrow>
         ((\<exists>more. acts = StartServer # more) \<longrightarrow> state = stopped \<or> state = error)
         \<and> (StopServer \<in> set acts \<longrightarrow> state = running))"
  by (cases state) (auto simp: renderServerStatus_def controls_def)

theorem lifecycle_controls_by_state_witness:
  "panel_listeners (renderServerStatus stopped (js ''http://127.0.0.1:14096''))
     = [(js ''Start Server'', [StartServer, RenderServerStatus])]
   \<and> panel_listeners (renderServerStatus error (js ''http://127.0.0.1:14096''))
     = [(js ''Start Server'', [StartServer, RenderServerStatus])]
   \<and> panel_listeners (renderServerStatus running (js ''http://127.0.0.1:14096''))
     = [(js ''Stop Server'', [StopServer, RenderServerStatus]),
        (js ''Restart Server'', [StopServer, StartServer, RenderServerStatus])]
   \<and> panel_listeners (renderServerStatus starting (js ''http://127.0.0.1:14096'')) = []"
  using lifecycle_controls_by_state [of stopped "js ''http://127.0.0.1:14096''"]
    lifecycle_controls_by_state [of error "js ''http://127.0.0.1:14096''"]
    lifecycle_controls_by_state [of running "js ''http://127.0.0.1:14096''"]
    lifecycle_controls_by_state [of starting "js ''http://127.0.0.1:14096''"]
  by simp

end
